theory Spec2Isabelle
  imports Complex_Main
begin

section \<open>Numerical tools: \<open>erf\<close>, \<open>cdf\<close> and \<open>cdf_table\<close>\<close>

text \<open>
  A shallow embedding of \<^verbatim>\<open>src/engine/numerics.py\<close>. The module computes with numpy
  arrays of IEEE doubles; here a number is a \<^typ>\<open>real\<close>, so \<open>+\<close>, \<open>*\<close>, \<open>/\<close>,
  \<open>exp\<close>, \<open>sqrt\<close> and \<open>ln\<close> are the exact operations and rounding, infinities and NaN
  are outside the model. A decimal literal of the source is the rational number it
  denotes. An order between two computed values that holds exactly here holds for the
  doubles only up to their rounding; where a statement below compares computed values it
  carries a tolerance for that.
\<close>

subsection \<open>Data\<close>

text \<open>
  Every entry point takes a scalar or a (one-dimensional) array of reals and answers
  with the same kind of value.
\<close>

datatype arg = Scalar real | Seq "real list"

datatype error = AssertionError string | IndexError

definition arg_map :: "(real \<Rightarrow> real) \<Rightarrow> arg \<Rightarrow> arg" where
  "arg_map f a = (case a of Scalar v \<Rightarrow> Scalar (f v) | Seq vs \<Rightarrow> Seq (map f vs))"

text \<open>
  The input check of \<open>erf\<close> and \<open>cdf_table\<close>:
  \<^verbatim>\<open>try: len(z)  except: scalar = True; z = [z]  else: scalar = False\<close>
  followed by \<^verbatim>\<open>z = numpy.array(z)\<close>.
\<close>

definition input_check :: "arg \<Rightarrow> bool \<times> real list" where
  "input_check z = (case z of Scalar v \<Rightarrow> (True, [v]) | Seq vs \<Rightarrow> (False, vs))"

text \<open>
  numpy's masked update \<^verbatim>\<open>a[m] = f(a[m])\<close> for a boolean array \<open>m\<close>: the entries under
  a true mask entry are replaced, the others kept. An empty mask selects nothing and
  leaves the array as it is; any other mask whose length differs from the array's is an
  IndexError.
\<close>

definition mask_assign :: "real list \<Rightarrow> bool list \<Rightarrow> (real \<Rightarrow> real) \<Rightarrow> error + real list" where
  "mask_assign a m f =
     (if m = [] then Inr a
      else if length m \<noteq> length a then Inl IndexError
      else Inr (map2 (\<lambda>ai mi. if mi then f ai else ai) a m))"

text \<open>\<^verbatim>\<open>a[0]\<close>, which raises IndexError on an empty array.\<close>

definition first_elem :: "real list \<Rightarrow> error + real" where
  "first_elem a = (case a of [] \<Rightarrow> Inl IndexError | v # _ \<Rightarrow> Inr v)"

text \<open>\<^verbatim>\<open>if scalar: return a[0]  else: return a\<close>\<close>

definition unwrap :: "bool \<Rightarrow> real list \<Rightarrow> error + arg" where
  "unwrap scalar a =
     (if scalar then (case first_elem a of Inl e \<Rightarrow> Inl e | Inr v \<Rightarrow> Inr (Scalar v))
      else Inr (Seq a))"

subsection \<open>\<open>erf\<close>\<close>

text \<open>
  Lines 212 to 244 of the source, array operation by array operation: the array \<open>t\<close>,
  the array \<open>ans\<close> with the nested polynomial as it is written, the mask \<open>neg\<close>, the
  masked negation and the unwrapping of a scalar.
\<close>

definition erf :: "arg \<Rightarrow> error + arg" where
  "erf zin =
     (let (scalar, z) = input_check zin;
          t = map (\<lambda>zi. 1.0 / (1.0 + 0.5 * \<bar>zi\<bar>)) z;
          ans = map2 (\<lambda>zi ti. 1 - ti * exp (- zi * zi - 1.26551223 +
                           ti * (1.00002368 +
                           ti * (0.37409196 +
                           ti * (0.09678418 +
                           ti * (- 0.18628806 +
                           ti * (0.27886807 +
                           ti * (- 1.13520398 +
                           ti * (1.48851587 +
                           ti * (- 0.82215223 +
                           ti * 0.17087277)))))))))) z t;
          neg = map (\<lambda>zi. zi < 0.0) z
      in case mask_assign ans neg uminus of
           Inl e \<Rightarrow> Inl e
         | Inr ans' \<Rightarrow> unwrap scalar ans')"

text \<open>
  The reference definition in the words of the specification: \<open>t = 1/(1+0.5*|z|)\<close>, a
  nine-term polynomial in \<open>t\<close> by Horner's method, coefficients from the outermost to
  the innermost, \<open>1 - t*exp(-z\<^sup>2 - 1.26551223 + poly(t))\<close>, negated where \<open>z\<close> is
  negative.
\<close>

definition erf_coefficients :: "real list" where
  "erf_coefficients =
     [1.00002368, 0.37409196, 0.09678418, - 0.18628806, 0.27886807,
      - 1.13520398, 1.48851587, - 0.82215223, 0.17087277]"

definition horner :: "real list \<Rightarrow> real \<Rightarrow> real" where
  "horner cs t = foldr (\<lambda>c acc. t * (c + acc)) cs 0"

definition erf_reference :: "real \<Rightarrow> real" where
  "erf_reference z =
     (let t = 1 / (1 + 0.5 * \<bar>z\<bar>);
          r = 1 - t * exp (- z\<^sup>2 - 1.26551223 + horner erf_coefficients t)
      in if z < 0 then - r else r)"

subsection \<open>\<open>cdf\<close>\<close>

text \<open>
  Lines 27 to 36 of the source. \<open>kind\<close> is a string; the \<open>assert\<close> that it is one of
  the two admitted kinds comes first and its failure is the error value. The log-normal
  case calls \<open>cdf\<close> again on \<open>numpy.log(x)\<close>, with \<open>mu\<close> and \<open>sigma\<close> as they are
  and kind \<open>normal\<close>. The arithmetic on \<open>x\<close> is numpy's, elementwise on an array.
\<close>

definition msg :: string where
  \<open>msg = ''Argument "kind" must be either normal or lognormal''\<close>

function cdf :: "arg \<Rightarrow> real \<Rightarrow> real \<Rightarrow> string \<Rightarrow> error + arg" where
  "cdf x mu sigma kind =
     (if kind \<notin> set [''normal'', ''lognormal''] then Inl (AssertionError msg)
      else if kind = ''lognormal'' then cdf (arg_map ln x) mu sigma ''normal''
      else (let arg = arg_map (\<lambda>v. (v - mu) / (sigma * sqrt 2)) x
            in case erf arg of
                 Inl e \<Rightarrow> Inl e
               | Inr e \<Rightarrow> Inr (arg_map (\<lambda>v. (1 + v) / 2) e)))"
  by pat_completeness auto
termination
  by (relation "measure (\<lambda>(x, mu, sigma, kind). if kind = ''lognormal'' then 1 else 0)") auto

declare cdf.simps [simp del]

text \<open>
  The normal case in the words of the specification: \<open>arg = (x-mu)/(sigma*sqrt(2))\<close>
  and the result \<open>(1+erf(arg))/2\<close>, with the reference \<open>erf\<close>.
\<close>

definition cdf_reference :: "real \<Rightarrow> real \<Rightarrow> real \<Rightarrow> real" where
  "cdf_reference mu sigma x = (1 + erf_reference ((x - mu) / (sigma * sqrt 2))) / 2"

subsection \<open>The interpolation routine\<close>

text \<open>
  Modelled from the spec: the value of \<open>interpolate1d\<close> at one query point \<open>q\<close> inside
  \<open>[xs[0], xs[-1]]\<close>. \<open>interpolate1d\<close> belongs to the module \<open>interpolation1d\<close>, which
  \<open>numerics.py\<close> imports and which is not among the sources; the specification describes
  it as piecewise-linear interpolation over the pairs \<open>(xs, ys)\<close>. The value is that of
  the line through the two neighbouring table points; no segment holds a query point
  outside the table (\<open>None\<close>).
\<close>

fun linear_at :: "real list \<Rightarrow> real list \<Rightarrow> real \<Rightarrow> real option" where
  "linear_at (x0 # x1 # xs) (y0 # y1 # ys) q =
     (if x0 \<le> q \<and> q \<le> x1 then Some (y0 + (q - x0) / (x1 - x0) * (y1 - y0))
      else linear_at (x1 # xs) (y1 # ys) q)"
| "linear_at _ _ q = None"

text \<open>
  Modelled from the spec: \<open>interpolate1d(xs, ys, query)\<close>, evaluated at each query
  point. What it returns for a query point outside \<open>[xs[0], xs[-1]]\<close> is
  implementation-defined: it is the parameter \<open>outside\<close>.
\<close>

definition interpolate1d ::
    "(real \<Rightarrow> real) \<Rightarrow> real list \<Rightarrow> real list \<Rightarrow> real list \<Rightarrow> real list" where
  "interpolate1d outside xs ys qs =
     map (\<lambda>q. case linear_at xs ys q of Some v \<Rightarrow> v | None \<Rightarrow> outside q) qs"

subsection \<open>\<open>cdf_table\<close>\<close>

text \<open>The table data of lines 67 to 102, the y-values written without exponents.\<close>

definition table_x :: "real list" where
  "table_x =
     [- 5.00, - 4.90, - 4.80, - 4.70, - 4.60, - 4.50, - 4.40, - 4.30, - 4.20, - 4.10,
      - 4.00, - 3.90, - 3.80, - 3.70, - 3.60, - 3.50, - 3.40, - 3.30, - 3.20, - 3.10,
      - 3.00, - 2.90, - 2.80, - 2.70, - 2.60, - 2.50, - 2.40, - 2.30, - 2.20, - 2.10,
      - 2.00, - 1.90, - 1.80, - 1.70, - 1.60, - 1.50, - 1.40, - 1.30, - 1.20, - 1.10,
      - 1.00, - 0.90, - 0.80, - 0.70, - 0.60, - 0.50, - 0.40, - 0.30, - 0.20, - 0.10,
      0.00, 0.10, 0.20, 0.30, 0.40, 0.50, 0.60, 0.70, 0.80, 0.90,
      1.00, 1.10, 1.20, 1.30, 1.40, 1.50, 1.60, 1.70, 1.80, 1.90,
      2.00, 2.10, 2.20, 2.30, 2.40, 2.50, 2.60, 2.70, 2.80, 2.90,
      3.00, 3.10, 3.20, 3.30, 3.40, 3.50, 3.60, 3.70, 3.80, 3.90,
      4.00, 4.10, 4.20, 4.30, 4.40, 4.50, 4.60, 4.70, 4.80, 4.90]"

definition table_y :: "real list" where
  "table_y =
     [0.000000286651572, 0.000000479183277, 0.000000793328152, 0.00000130080745,
      0.00000211245470, 0.00000339767312, 0.00000541254391, 0.00000853990547,
      0.0000133457490, 0.0000206575069, 0.0000316712418, 0.0000480963440,
      0.0000723480439, 0.000107799733, 0.000159108590, 0.000232629079,
      0.000336929266, 0.000483424142, 0.000687137938, 0.000967603213,
      0.00134989803, 0.00186581330, 0.00255513033, 0.00346697380,
      0.00466118802, 0.00620966533, 0.00819753592, 0.0107241100,
      0.0139034475, 0.0178644206, 0.0227501319, 0.0287165598,
      0.0359303191, 0.0445654628, 0.0547992917, 0.0668072013,
      0.0807566592, 0.0968004846, 0.115069670, 0.135666061,
      0.158655254, 0.184060125, 0.211855399, 0.241963652,
      0.274253118, 0.308537539, 0.344578258, 0.382088578,
      0.420740291, 0.460172163, 0.500000000, 0.539827837,
      0.579259709, 0.617911422, 0.655421742, 0.691462461,
      0.725746882, 0.758036348, 0.788144601, 0.815939875,
      0.841344746, 0.864333939, 0.884930330, 0.903199515,
      0.919243341, 0.933192799, 0.945200708, 0.955434537,
      0.964069681, 0.971283440, 0.977249868, 0.982135579,
      0.986096552, 0.989275890, 0.991802464, 0.993790335,
      0.995338812, 0.996533026, 0.997444870, 0.998134187,
      0.998650102, 0.999032397, 0.999312862, 0.999516576,
      0.999663071, 0.999767371, 0.999840891, 0.999892200,
      0.999927652, 0.999951904, 0.999968329, 0.999979342,
      0.999986654, 0.999991460, 0.999994587, 0.999996602,
      0.999997888, 0.999998699, 0.999999207, 0.999999521]"

text \<open>
  Lines 55 to 113 of the source. The imported interpolation routine is the first
  argument. After the call, the entries of \<open>r\<close> at the positions where \<open>z < x[0]\<close> are
  set to 0 and those where \<open>z > x[-1]\<close> to 1.
\<close>

definition cdf_table ::
    "(real list \<Rightarrow> real list \<Rightarrow> real list \<Rightarrow> real list) \<Rightarrow> arg \<Rightarrow> error + arg" where
  "cdf_table interpolate zin =
     (let (scalar, z) = input_check zin;
          x = table_x;
          y = table_y;
          r = interpolate x y z
      in case mask_assign r (map (\<lambda>zi. zi < x ! 0) z) (\<lambda>_. 0) of
           Inl e \<Rightarrow> Inl e
         | Inr r' \<Rightarrow>
             (case mask_assign r' (map (\<lambda>zi. zi > last x) z) (\<lambda>_. 1) of
                Inl e \<Rightarrow> Inl e
              | Inr r'' \<Rightarrow> unwrap scalar r''))"

subsection \<open>Shapes and values of results\<close>

definition values_of :: "arg \<Rightarrow> real list" where
  "values_of a = (case a of Scalar v \<Rightarrow> [v] | Seq vs \<Rightarrow> vs)"

definition same_shape :: "arg \<Rightarrow> arg \<Rightarrow> bool" where
  "same_shape a b =
     (case (a, b) of
        (Scalar _, Scalar _) \<Rightarrow> True
      | (Seq vs, Seq ws) \<Rightarrow> length vs = length ws
      | _ \<Rightarrow> False)"

text \<open>
  The assumption on an interpolation routine that C10 makes: at the query point \<open>q\<close>
  the value \<open>v\<close> lies between the \<open>y\<close>-entries of two neighbouring table points whose
  \<open>x\<close>-entries enclose \<open>q\<close>.
\<close>

definition between_neighbours :: "real list \<Rightarrow> real list \<Rightarrow> real \<Rightarrow> real \<Rightarrow> bool" where
  "between_neighbours xs ys q v =
     (\<exists>j \<in> {0 ..< length xs - 1}.
        xs ! j \<le> q \<and> q \<le> xs ! Suc j \<and>
        min (ys ! j) (ys ! Suc j) \<le> v \<and> v \<le> max (ys ! j) (ys ! Suc j))"

subsection \<open>Facts about \<open>erf\<close>\<close>

lemma map2_same: "map2 f xs (map g xs) = map (\<lambda>x. f x (g x)) xs"
  by (induction xs) simp_all

lemma map2_maps: "map2 f (map g xs) (map h xs) = map (\<lambda>x. f (g x) (h x)) xs"
  by (induction xs) simp_all

lemma mask_assign_map:
  "mask_assign (map g xs) (map p xs) f = Inr (map (\<lambda>x. if p x then f (g x) else g x) xs)"
  by (cases xs) (simp_all add: mask_assign_def map2_maps)

lemma horner_erf_coefficients:
  "horner erf_coefficients t =
     t * (1.00002368 + t * (0.37409196 + t * (0.09678418 + t * (- 0.18628806 +
     t * (0.27886807 + t * (- 1.13520398 + t * (1.48851587 + t * (- 0.82215223 +
     t * 0.17087277))))))))"
  by (simp add: horner_def erf_coefficients_def)

lemma erf_Seq: "erf (Seq zs) = Inr (Seq (map erf_reference zs))"
  by (simp add: erf_def input_check_def map2_same mask_assign_map unwrap_def
      erf_reference_def horner_erf_coefficients power2_eq_square Let_def)

lemma erf_Scalar: "erf (Scalar z) = Inr (Scalar (erf_reference z))"
  by (simp add: erf_def input_check_def mask_assign_def unwrap_def first_elem_def
      erf_reference_def horner_erf_coefficients power2_eq_square Let_def)

lemma erf_arg_map: "erf z = Inr (arg_map erf_reference z)"
  by (cases z) (simp_all add: erf_Seq erf_Scalar arg_map_def)

text \<open>
  C1. For every real scalar or array \<open>z\<close>, \<open>erf z\<close> is the reference definition applied
  to the scalar, or to each element of the array: with \<open>t = 1/(1+0.5*|z|)\<close> the value
  is \<open>1 - t*exp(-z\<^sup>2 - 1.26551223 + p(t))\<close>, \<open>p\<close> the nine-term Horner polynomial with
  the listed coefficients, negated exactly where \<open>z\<close> is negative.
\<close>

theorem erf_is_reference:
  "erf (Scalar z) = Inr (Scalar (erf_reference z)) \<and>
   erf (Seq zs) = Inr (Seq (map erf_reference zs))"
  by (simp add: erf_Seq erf_Scalar)

text \<open>
  The approximation at 0. With \<open>t = 1\<close> the polynomial is the sum of its
  coefficients, 1.26551226, so the exponent is \<open>3e-8\<close> and not 0.
\<close>

lemma erf_reference_0: "erf_reference 0 = 1 - exp (3 / 10 ^ 8)"
  by (simp add: erf_reference_def horner_erf_coefficients)

lemma exp_small_bounds:
  "1 < exp (3 / 10 ^ 8 :: real) \<and> exp (3 / 10 ^ 8 :: real) < 1 + 4 / 10 ^ 8"
proof
  show "1 < exp (3 / 10 ^ 8 :: real)" by simp
  have "exp (3 / 10 ^ 8 :: real) \<le> 1 + 3 / 10 ^ 8 + (3 / 10 ^ 8)\<^sup>2"
    by (rule exp_bound) simp_all
  also have "\<dots> < 1 + 4 / 10 ^ 8" by (simp add: power2_eq_square)
  finally show "exp (3 / 10 ^ 8 :: real) < 1 + 4 / 10 ^ 8" .
qed

lemma exp_small_lower: "1 + 3 / 10 ^ 8 < exp (3 / 10 ^ 8 :: real)"
proof -
  have "1 + 3 / 10 ^ 8 < 1 + 3 / 10 ^ 8 + (3 / 10 ^ 8 :: real)\<^sup>2 / 2" by simp
  also have "\<dots> \<le> exp (3 / 10 ^ 8 :: real)"
    by (rule exp_lower_Taylor_quadratic) simp
  finally show ?thesis .
qed

lemma erf_reference_odd: "z \<noteq> 0 \<Longrightarrow> erf_reference (- z) = - erf_reference z"
  by (simp add: erf_reference_def Let_def)

subsection \<open>Facts about \<open>cdf\<close>\<close>

lemma arg_map_comp: "arg_map f (arg_map g a) = arg_map (\<lambda>v. f (g v)) a"
  by (cases a) (simp_all add: arg_map_def)

lemma cdf_normal: "cdf x mu sigma ''normal'' = Inr (arg_map (cdf_reference mu sigma) x)"
  by (simp add: cdf.simps [of x mu sigma "''normal''"] erf_arg_map arg_map_comp
      cdf_reference_def [abs_def])

lemma cdf_lognormal: "cdf x mu sigma ''lognormal'' = cdf (arg_map ln x) mu sigma ''normal''"
  by (simp add: cdf.simps [of x mu sigma "''lognormal''"])

lemma cdf_invalid:
  "kind \<noteq> ''normal'' \<Longrightarrow> kind \<noteq> ''lognormal'' \<Longrightarrow>
   cdf x mu sigma kind = Inl (AssertionError msg)"
  by (simp add: cdf.simps [of x mu sigma kind])

text \<open>
  C2. For every \<open>x\<close>, \<open>mu\<close> and \<open>sigma\<close>, the normal kind returns
  \<open>(1 + erf((x - mu)/(sigma*sqrt(2))))/2\<close> (elementwise on an array), the log-normal
  kind returns what the normal kind returns on \<open>ln x\<close> with \<open>mu\<close> and \<open>sigma\<close>
  unchanged, whatever the sign of \<open>x\<close>, and \<open>cdf(1, 0, 1, lognormal)\<close> is
  \<open>cdf(0, 0, 1, normal)\<close>.
\<close>

theorem cdf_formula:
  "cdf x mu sigma ''normal'' = Inr (arg_map (cdf_reference mu sigma) x) \<and>
   cdf x mu sigma ''lognormal'' = cdf (arg_map ln x) mu sigma ''normal'' \<and>
   cdf (Scalar 1) 0 1 ''lognormal'' = cdf (Scalar 0) 0 1 ''normal''"
  by (simp add: cdf_normal cdf_lognormal arg_map_def)

text \<open>
  C5, as the specification states it, fails: \<open>erf(0)\<close> is not 0.
\<close>

theorem erf_zero_counterexample: "erf (Scalar 0) \<noteq> Inr (Scalar 0)"
  using exp_small_bounds by (simp add: erf_Scalar erf_reference_0)

text \<open>
  C5, amended. \<open>erf(0)\<close> is \<open>1 - exp(3e-8)\<close>, which lies strictly between \<open>-4e-8\<close> and
  \<open>-3e-8\<close>, and \<open>cdf(0)\<close> with the default parameters is \<open>(1 + erf(0))/2\<close>, that is
  \<open>1 - exp(3e-8)/2\<close>, just below one half.
\<close>

theorem erf_cdf_at_zero:
  "erf (Scalar 0) = Inr (Scalar (1 - exp (3 / 10 ^ 8))) \<and>
   cdf (Scalar 0) 0 1 ''normal'' = Inr (Scalar (1 - exp (3 / 10 ^ 8) / 2)) \<and>
   - (4 / 10 ^ 8) < 1 - exp (3 / 10 ^ 8 :: real) \<and>
   1 - exp (3 / 10 ^ 8 :: real) < - (3 / 10 ^ 8)"
proof -
  have "cdf (Scalar 0) 0 1 ''normal'' = Inr (Scalar (1 - exp (3 / 10 ^ 8) / 2))"
    by (simp add: cdf_normal arg_map_def cdf_reference_def erf_reference_0)
  then show ?thesis
    using exp_small_bounds exp_small_lower by (simp add: erf_Scalar erf_reference_0)
qed

text \<open>
  C6. \<open>cdf\<close> fails with the assertion's error exactly when \<open>kind\<close> is neither
  \<open>normal\<close> nor \<open>lognormal\<close>; the failure is the same value for every \<open>x\<close>, \<open>mu\<close>
  and \<open>sigma\<close>: nothing is computed from them, and the function has no state.
\<close>

theorem cdf_error_iff:
  "((\<exists>e. cdf x mu sigma kind = Inl e) \<longleftrightarrow> kind \<notin> {''normal'', ''lognormal''}) \<and>
   (kind \<notin> {''normal'', ''lognormal''} \<longrightarrow> cdf x mu sigma kind = Inl (AssertionError msg))"
proof (cases "kind = ''normal'' \<or> kind = ''lognormal''")
  case True
  then show ?thesis by (auto simp: cdf_normal cdf_lognormal)
next
  case False
  then show ?thesis by (simp add: cdf_invalid)
qed

theorem cdf_error_iff_witness:
  "''bogus'' \<notin> {''normal'', ''lognormal''} \<and>
   cdf (Scalar 0) 0 1 ''bogus'' = Inl (AssertionError msg)"
  using cdf_error_iff [of "Scalar 0" 0 1 "''bogus''"] by simp

text \<open>
  C8. For every real \<open>z\<close>, \<open>erf(-z)\<close> and \<open>-erf(z)\<close> differ by less than \<open>1e-6\<close>:
  they are equal except at 0, where both \<open>erf(-0)\<close> and \<open>erf(0)\<close> are \<open>1 - exp(3e-8)\<close>.
\<close>

theorem erf_odd_within_tolerance:
  "\<exists>a b. erf (Scalar (- z)) = Inr (Scalar a) \<and> erf (Scalar z) = Inr (Scalar b) \<and>
         \<bar>a - (- b)\<bar> < 1 / 10 ^ 6"
proof (cases "z = 0")
  case True
  have "\<bar>erf_reference 0 - (- erf_reference 0)\<bar> < 1 / 10 ^ 6"
    using exp_small_bounds by (simp add: erf_reference_0)
  with True show ?thesis by (simp add: erf_Scalar)
next
  case False
  then show ?thesis by (simp add: erf_Scalar erf_reference_odd)
qed

subsection \<open>Facts about the interpolation\<close>

lemma segment_bounds:
  fixes x0 x1 y0 y1 q :: real
  assumes "x0 < x1" "x0 \<le> q" "q \<le> x1" "y0 \<le> y1"
  shows "y0 \<le> y0 + (q - x0) / (x1 - x0) * (y1 - y0)"
    and "y0 + (q - x0) / (x1 - x0) * (y1 - y0) \<le> y1"
proof -
  let ?a = "(q - x0) / (x1 - x0)"
  have a0: "0 \<le> ?a" using assms by simp
  have a1: "?a \<le> 1" using assms by simp
  have "0 \<le> ?a * (y1 - y0)" using a0 assms by simp
  then show "y0 \<le> y0 + ?a * (y1 - y0)" by simp
  have "?a * (y1 - y0) \<le> 1 * (y1 - y0)"
    using a1 assms by (intro mult_right_mono) simp_all
  then show "y0 + ?a * (y1 - y0) \<le> y1" by simp
qed

lemma segment_mono:
  fixes x0 x1 y0 y1 q1 q2 :: real
  assumes "x0 < x1" "q1 \<le> q2" "y0 \<le> y1"
  shows "y0 + (q1 - x0) / (x1 - x0) * (y1 - y0) \<le> y0 + (q2 - x0) / (x1 - x0) * (y1 - y0)"
proof -
  have "(q1 - x0) / (x1 - x0) \<le> (q2 - x0) / (x1 - x0)"
    using assms by (simp add: divide_right_mono)
  then have "(q1 - x0) / (x1 - x0) * (y1 - y0) \<le> (q2 - x0) / (x1 - x0) * (y1 - y0)"
    using assms by (intro mult_right_mono) simp_all
  then show ?thesis by simp
qed

lemma linear_at_below:
  "successively (<) xs \<Longrightarrow> q < hd xs \<Longrightarrow> linear_at xs ys q = None"
proof (induction xs ys q rule: linear_at.induct)
  case (1 x0 x1 xs y0 y1 ys q)
  then show ?case by simp
qed simp_all

lemma linear_at_inside:
  "length xs = length ys \<Longrightarrow> 2 \<le> length xs \<Longrightarrow> hd xs \<le> q \<Longrightarrow> q \<le> last xs \<Longrightarrow>
   \<exists>v. linear_at xs ys q = Some v"
proof (induction xs ys q rule: linear_at.induct)
  case (1 x0 x1 xs y0 y1 ys q)
  show ?case
  proof (cases "x0 \<le> q \<and> q \<le> x1")
    case True
    then show ?thesis by simp
  next
    case False
    with "1.prems" have "xs \<noteq> []" by auto
    with "1.prems" False have "\<exists>v. linear_at (x1 # xs) (y1 # ys) q = Some v"
      by (intro "1.IH") (auto simp: Suc_le_eq)
    with False show ?thesis by simp
  qed
qed simp_all

lemma successively_le_last:
  "successively (\<le>) (y # ys) \<Longrightarrow> (y::real) \<le> last (y # ys)"
proof (induction ys arbitrary: y)
  case Nil
  then show ?case by simp
next
  case (Cons a ys)
  then have "y \<le> a" "a \<le> last (a # ys)" by simp_all
  then show ?case by simp
qed

lemma linear_at_bounds:
  "successively (<) xs \<Longrightarrow> successively (\<le>) ys \<Longrightarrow> linear_at xs ys q = Some v \<Longrightarrow>
   hd ys \<le> v \<and> v \<le> last ys"
proof (induction xs ys q rule: linear_at.induct)
  case (1 x0 x1 xs y0 y1 ys q)
  have y1_last: "y1 \<le> last (y1 # ys)"
    using "1.prems"(2) by (intro successively_le_last) simp
  show ?case
  proof (cases "x0 \<le> q \<and> q \<le> x1")
    case True
    then have v: "v = y0 + (q - x0) / (x1 - x0) * (y1 - y0)" using "1.prems" by simp
    from "1.prems" have ord: "x0 < x1" "y0 \<le> y1" by simp_all
    from True have q: "x0 \<le> q" "q \<le> x1" by simp_all
    have "y0 \<le> v" "v \<le> y1"
      unfolding v by (rule segment_bounds [OF ord(1) q ord(2)])+
    with y1_last show ?thesis by simp
  next
    case False
    then have "hd (y1 # ys) \<le> v \<and> v \<le> last (y1 # ys)"
      using "1.prems" by (intro "1.IH") auto
    with "1.prems" show ?thesis by simp
  qed
qed simp_all


lemma linear_at_mono:
  "successively (<) xs \<Longrightarrow> successively (\<le>) ys \<Longrightarrow> q1 \<le> q2 \<Longrightarrow>
   linear_at xs ys q1 = Some v1 \<Longrightarrow> linear_at xs ys q2 = Some v2 \<Longrightarrow> v1 \<le> v2"
proof (induction xs ys q1 rule: linear_at.induct)
  case (1 x0 x1 xs y0 y1 ys q1)
  from "1.prems" have ord: "x0 < x1" "y0 \<le> y1" by simp_all
  from "1.prems" have rest: "successively (<) (x1 # xs)" "successively (\<le>) (y1 # ys)"
    by simp_all
  note l1 = "1.prems"(4) and l2 = "1.prems"(5) and le = "1.prems"(3)
  show ?case
  proof (cases "x0 \<le> q1 \<and> q1 \<le> x1")
    case in1: True
    with l1 have v1: "v1 = y0 + (q1 - x0) / (x1 - x0) * (y1 - y0)" by simp
    show ?thesis
    proof (cases "x0 \<le> q2 \<and> q2 \<le> x1")
      case True
      with l2 have "v2 = y0 + (q2 - x0) / (x1 - x0) * (y1 - y0)" by simp
      with v1 show ?thesis
        using segment_mono [OF ord(1) le ord(2)] by simp
    next
      case False
      with l2 have "linear_at (x1 # xs) (y1 # ys) q2 = Some v2" by simp
      from linear_at_bounds [OF rest this] have "y1 \<le> v2" by simp
      moreover from in1 have "x0 \<le> q1" "q1 \<le> x1" by simp_all
      then have "v1 \<le> y1"
        unfolding v1 by (rule segment_bounds(2) [OF ord(1) _ _ ord(2)])
      ultimately show ?thesis by simp
    qed
  next
    case out1: False
    with l1 have r1: "linear_at (x1 # xs) (y1 # ys) q1 = Some v1" by simp
    have "\<not> q1 < x1"
    proof
      assume "q1 < x1"
      then have "linear_at (x1 # xs) (y1 # ys) q1 = None"
        using rest(1) by (intro linear_at_below) simp_all
      with r1 show False by simp
    qed
    with le out1 ord(1) have "\<not> (x0 \<le> q2 \<and> q2 \<le> x1)" by arith
    with l2 have r2: "linear_at (x1 # xs) (y1 # ys) q2 = Some v2" by simp
    from out1 rest le r1 r2 show ?thesis by (rule "1.IH")
  qed
qed simp_all

lemma table_x_sorted: "successively (<) table_x"
  by (simp add: table_x_def)

lemma table_y_sorted: "successively (\<le>) table_y"
  by (simp add: table_y_def)

lemma table_lengths: "length table_x = 100" "length table_y = 100"
  by (simp_all add: table_x_def table_y_def)

lemma table_x_ends: "table_x ! 0 = - 5" "hd table_x = - 5" "last table_x = 4.9"
  by (simp_all add: table_x_def)

lemma table_y_ends: "hd table_y = 0.000000286651572" "last table_y = 0.999999521"
  by (simp_all add: table_y_def)


lemma mask_assign_zip:
  "length r = length z \<Longrightarrow>
   mask_assign r (map p z) f = Inr (map2 (\<lambda>ri zi. if p zi then f ri else ri) r z)"
  by (cases "z = []") (simp_all add: mask_assign_def zip_map2 case_prod_unfold)

lemma map2_map2_left:
  "length r = length z \<Longrightarrow> map2 g (map2 f r z) z = map2 (\<lambda>ri zi. g (f ri zi) zi) r z"
  by (induction r z rule: list_induct2) simp_all

lemma cdf_table_Seq:
  assumes "length (interpolate table_x table_y zs) = length zs"
  shows "cdf_table interpolate (Seq zs) =
         Inr (Seq (map2 (\<lambda>r z. if 4.9 < z then 1 else if z < - 5 then 0 else r)
                    (interpolate table_x table_y zs) zs))"
proof -
  let ?r = "interpolate table_x table_y zs"
  let ?r' = "map2 (\<lambda>ri zi. if zi < - 5 then 0 else ri) ?r zs"
  have 1: "mask_assign ?r (map (\<lambda>zi. zi < table_x ! 0) zs) (\<lambda>_. 0) = Inr ?r'"
    using assms by (simp add: mask_assign_zip table_x_ends)
  have 2: "mask_assign ?r' (map (\<lambda>zi. zi > last table_x) zs) (\<lambda>_. 1) =
           Inr (map2 (\<lambda>ri zi. if 4.9 < zi then 1 else ri) ?r' zs)"
    using assms by (simp add: mask_assign_zip table_x_ends)
  have 3: "map2 (\<lambda>ri zi. if 4.9 < zi then 1 else ri) ?r' zs =
           map2 (\<lambda>r z. if 4.9 < z then 1 else if z < - 5 then 0 else r) ?r zs"
    by (rule map2_map2_left [OF assms])
  show ?thesis
    unfolding cdf_table_def input_check_def
    by (simp only: arg.case prod.case Let_def 1 2 3 sum.case unwrap_def if_False)
qed

lemma cdf_table_Scalar:
  assumes "interpolate table_x table_y [z] = [r]"
  shows "cdf_table interpolate (Scalar z) =
         Inr (Scalar (if 4.9 < z then 1 else if z < - 5 then 0 else r))"
  by (simp add: cdf_table_def input_check_def assms mask_assign_def table_x_ends
      unwrap_def first_elem_def)

lemma length_2_conv: "length xs = 2 \<longleftrightarrow> (\<exists>a b. xs = [a, b])"
  by (auto simp: length_Suc_conv numeral_2_eq_2)

lemma length_1_conv: "length xs = Suc 0 \<longleftrightarrow> (\<exists>x. xs = [x])"
  by (cases xs) auto

text \<open>
  C3. Whatever the interpolation routine returns (a sequence as long as the query),
  \<open>cdf_table\<close> answers exactly 0 at every \<open>z < -5.00\<close> and exactly 1 at every
  \<open>z > 4.90\<close>: the two masked assignments come after the call and overwrite its
  values. In particular \<open>cdf_table(-10) = 0\<close> and \<open>cdf_table(10) = 1\<close>, here with a
  routine that returns the query point itself outside the table.
\<close>

theorem cdf_table_clamps:
  assumes "length (interpolate table_x table_y (values_of z)) = length (values_of z)"
  shows "\<exists>r. cdf_table interpolate z = Inr r \<and> same_shape z r \<and>
             (\<forall>i < length (values_of z).
                (values_of z ! i < - 5.00 \<longrightarrow> values_of r ! i = 0) \<and>
                (values_of z ! i > 4.90 \<longrightarrow> values_of r ! i = 1))"
proof (cases z)
  case (Scalar v)
  with assms obtain r where "interpolate table_x table_y [v] = [r]"
    by (auto simp: values_of_def length_1_conv)
  then have "cdf_table interpolate (Scalar v) =
      Inr (Scalar (if 4.9 < v then 1 else if v < - 5 then 0 else r))"
    by (rule cdf_table_Scalar)
  with Scalar show ?thesis
    by (simp add: same_shape_def values_of_def)
next
  case (Seq vs)
  with assms have len: "length (interpolate table_x table_y vs) = length vs"
    by (simp add: values_of_def)
  then have "cdf_table interpolate (Seq vs) =
      Inr (Seq (map2 (\<lambda>r z. if 4.9 < z then 1 else if z < - 5 then 0 else r)
                 (interpolate table_x table_y vs) vs))"
    by (rule cdf_table_Seq)
  with len Seq show ?thesis
    by (simp add: same_shape_def values_of_def)
qed

theorem cdf_table_clamps_witness:
  "cdf_table (interpolate1d (\<lambda>q. q)) (Scalar (- 10)) = Inr (Scalar 0) \<and>
   cdf_table (interpolate1d (\<lambda>q. q)) (Scalar 10) = Inr (Scalar 1) \<and>
   cdf_table (interpolate1d (\<lambda>q. q)) (Seq [- 10, 10]) = Inr (Seq [0, 1])"
proof -
  have len: "length (interpolate1d (\<lambda>q. q) table_x table_y (values_of a)) = length (values_of a)"
    for a by (simp add: interpolate1d_def)
  from cdf_table_clamps [of "interpolate1d (\<lambda>q. q)" "Scalar (- 10)", OF len]
  have 1: "cdf_table (interpolate1d (\<lambda>q. q)) (Scalar (- 10)) = Inr (Scalar 0)"
    by (auto simp: same_shape_def values_of_def split: arg.splits)
  from cdf_table_clamps [of "interpolate1d (\<lambda>q. q)" "Scalar 10", OF len]
  have 2: "cdf_table (interpolate1d (\<lambda>q. q)) (Scalar 10) = Inr (Scalar 1)"
    by (auto simp: same_shape_def values_of_def split: arg.splits)
  from cdf_table_clamps [of "interpolate1d (\<lambda>q. q)" "Seq [- 10, 10]", OF len]
  obtain r where r: "cdf_table (interpolate1d (\<lambda>q. q)) (Seq [- 10, 10]) = Inr r"
    "same_shape (Seq [- 10, 10]) r" "values_of r ! 0 = 0" "values_of r ! 1 = 1"
    by (auto simp: values_of_def)
  then obtain ws where "r = Seq ws" "length ws = 2"
    by (cases r) (simp_all add: same_shape_def)
  then obtain a b where "r = Seq [a, b]"
    by (auto simp: length_2_conv)
  with r have "r = Seq [0, 1]" by (simp add: values_of_def)
  with r 1 2 show ?thesis by simp
qed


lemma interpolate1d_single:
  "interpolate1d outside xs ys [q] = [case linear_at xs ys q of Some v \<Rightarrow> v | None \<Rightarrow> outside q]"
  by (simp add: interpolate1d_def)

lemma cdf_table_interpolate1d_Scalar:
  "cdf_table (interpolate1d outside) (Scalar z) =
     Inr (Scalar (if 4.9 < z then 1 else if z < - 5 then 0
                  else (case linear_at table_x table_y z of Some v \<Rightarrow> v | None \<Rightarrow> outside z)))"
  by (rule cdf_table_Scalar) (rule interpolate1d_single)

lemma linear_at_first: "linear_at table_x table_y (- 5.00) = Some 0.000000286651572"
  by (simp add: table_x_def table_y_def)

lemma linear_at_last: "linear_at table_x table_y 4.90 = Some 0.999999521"
  by (simp add: table_x_def table_y_def)

text \<open>
  C4, as the specification states it, fails at the lower endpoint: \<open>-5.00 < x[0]\<close> is
  false, no clamp applies, and the interpolation at the first table point is the first
  table entry, not 0.
\<close>

theorem cdf_table_lower_endpoint_counterexample:
  "cdf_table (interpolate1d (\<lambda>q. 0)) (Scalar (- 5.00)) \<noteq> Inr (Scalar 0)"
  using linear_at_first by (simp add: cdf_table_interpolate1d_Scalar)

text \<open>
  C4, amended. At both table endpoints no clamp applies: \<open>cdf_table(-5.00)\<close> is the
  first table entry \<open>2.86651572e-07\<close> and \<open>cdf_table(4.90)\<close> is the last one,
  \<open>0.999999521\<close>.
\<close>

theorem cdf_table_endpoints:
  "cdf_table (interpolate1d outside) (Scalar (- 5.00)) = Inr (Scalar 0.000000286651572) \<and>
   cdf_table (interpolate1d outside) (Scalar 4.90) = Inr (Scalar 0.999999521)"
  using linear_at_first linear_at_last by (simp add: cdf_table_interpolate1d_Scalar)

lemma table_y_range: "\<forall>y \<in> set table_y. 0.000000286651572 \<le> y \<and> y \<le> 0.999999521"
  by (simp add: table_y_def)

lemma same_shape_arg_map: "same_shape a (arg_map f a)"
  by (cases a) (simp_all add: same_shape_def arg_map_def)

lemma same_shape_Seq_map2:
  "length r = length zs \<Longrightarrow> same_shape (Seq zs) (Seq (map2 f r zs))"
  by (simp add: same_shape_def)

lemma cdf_table_shape:
  assumes "length (interpolate table_x table_y (values_of x)) = length (values_of x)"
  shows "\<exists>r. cdf_table interpolate x = Inr r \<and> same_shape x r"
proof (cases x)
  case (Scalar v)
  with assms obtain r where "interpolate table_x table_y [v] = [r]"
    by (auto simp: values_of_def length_1_conv)
  then have "cdf_table interpolate (Scalar v) =
      Inr (Scalar (if 4.9 < v then 1 else if v < - 5 then 0 else r))"
    by (rule cdf_table_Scalar)
  with Scalar show ?thesis by (simp add: same_shape_def)
next
  case (Seq vs)
  with assms have len: "length (interpolate table_x table_y vs) = length vs"
    by (simp add: values_of_def)
  then have "cdf_table interpolate (Seq vs) =
      Inr (Seq (map2 (\<lambda>r z. if 4.9 < z then 1 else if z < - 5 then 0 else r)
                 (interpolate table_x table_y vs) vs))"
    by (rule cdf_table_Seq)
  with len Seq show ?thesis by (simp add: same_shape_def)
qed

text \<open>
  C7. \<open>erf\<close>, \<open>cdf\<close> (for both kinds and all parameters) and \<open>cdf_table\<close> (with an
  interpolation routine that returns as many values as it gets query points) answer a
  scalar with a scalar and a sequence with a sequence of the same length.
\<close>

theorem shape_preserved:
  assumes "length (interpolate table_x table_y (values_of x)) = length (values_of x)"
  shows "(\<exists>r. erf x = Inr r \<and> same_shape x r) \<and>
         (\<exists>r. cdf x mu sigma ''normal'' = Inr r \<and> same_shape x r) \<and>
         (\<exists>r. cdf x mu sigma ''lognormal'' = Inr r \<and> same_shape x r) \<and>
         (\<exists>r. cdf_table interpolate x = Inr r \<and> same_shape x r)"
proof -
  have "same_shape x (arg_map (cdf_reference mu sigma) (arg_map ln x))"
    by (simp add: arg_map_comp same_shape_arg_map)
  with cdf_table_shape [of interpolate x, OF assms] show ?thesis
    by (simp add: erf_arg_map cdf_normal cdf_lognormal same_shape_arg_map)
qed

theorem shape_preserved_witness:
  "(\<exists>r. erf (Seq [0, 1, 2]) = Inr r \<and> same_shape (Seq [0, 1, 2]) r) \<and>
   (\<exists>r. cdf (Seq [0, 1, 2]) 0 1 ''normal'' = Inr r \<and> same_shape (Seq [0, 1, 2]) r) \<and>
   (\<exists>r. cdf (Seq [0, 1, 2]) 0 1 ''lognormal'' = Inr r \<and> same_shape (Seq [0, 1, 2]) r) \<and>
   (\<exists>r. cdf_table (interpolate1d (\<lambda>q. q)) (Seq [0, 1, 2]) = Inr r \<and> same_shape (Seq [0, 1, 2]) r) \<and>
   (\<exists>r. cdf_table (interpolate1d (\<lambda>q. q)) (Scalar 0) = Inr r \<and> same_shape (Scalar 0) r)"
proof -
  have len: "length (interpolate1d (\<lambda>q. q) table_x table_y (values_of a)) = length (values_of a)"
    for a by (simp add: interpolate1d_def)
  from shape_preserved [of "interpolate1d (\<lambda>q. q)" "Seq [0, 1, 2]" 0 1, OF len]
    shape_preserved [of "interpolate1d (\<lambda>q. q)" "Scalar 0" 0 1, OF len]
  show ?thesis by simp
qed

lemma between_neighbours_Cons:
  assumes "between_neighbours xs ys q v" 
  shows "between_neighbours (x # xs) (y # ys) q v"
proof -
  from assms obtain j where j: "j < length xs - 1" "xs ! j \<le> q" "q \<le> xs ! Suc j"
      "min (ys ! j) (ys ! Suc j) \<le> v" "v \<le> max (ys ! j) (ys ! Suc j)"
    by (auto simp: between_neighbours_def)
  then have "Suc j \<in> {0 ..< length (x # xs) - 1}" by auto
  moreover from j have "(x # xs) ! Suc j \<le> q \<and> q \<le> (x # xs) ! Suc (Suc j) \<and>
      min ((y # ys) ! Suc j) ((y # ys) ! Suc (Suc j)) \<le> v \<and>
      v \<le> max ((y # ys) ! Suc j) ((y # ys) ! Suc (Suc j))" by simp
  ultimately show ?thesis unfolding between_neighbours_def by blast
qed

lemma linear_at_between:
  "successively (<) xs \<Longrightarrow> linear_at xs ys q = Some v \<Longrightarrow> between_neighbours xs ys q v"
proof (induction xs ys q rule: linear_at.induct)
  case (1 x0 x1 xs y0 y1 ys q)
  show ?case
  proof (cases "x0 \<le> q \<and> q \<le> x1")
    case True
    with "1.prems" have v: "v = y0 + (q - x0) / (x1 - x0) * (y1 - y0)" by simp
    from "1.prems" have lt: "x0 < x1" by simp
    from True have q: "x0 \<le> q" "q \<le> x1" by simp_all
    have "min y0 y1 \<le> v \<and> v \<le> max y0 y1"
    proof (cases "y0 \<le> y1")
      case True
      from segment_bounds [OF lt q True] show ?thesis unfolding v by simp
    next
      case False
      then have le: "y1 \<le> y0" by simp
      have "v = y1 + (x1 - q) / (x1 - x0) * (y0 - y1)"
        unfolding v using lt by (simp add: field_simps)
      moreover have "y1 \<le> y1 + (x1 - q) / (x1 - x0) * (y0 - y1)"
        using lt q le by simp
      moreover have "(x1 - q) / (x1 - x0) * (y0 - y1) \<le> 1 * (y0 - y1)"
        using lt q le by (intro mult_right_mono) simp_all
      ultimately show ?thesis using le by simp
    qed
    with True have "0 \<in> {0 ..< length (x0 # x1 # xs) - 1} \<and>
        (x0 # x1 # xs) ! 0 \<le> q \<and> q \<le> (x0 # x1 # xs) ! Suc 0 \<and>
        min ((y0 # y1 # ys) ! 0) ((y0 # y1 # ys) ! Suc 0) \<le> v \<and>
        v \<le> max ((y0 # y1 # ys) ! 0) ((y0 # y1 # ys) ! Suc 0)" by simp
    then show ?thesis unfolding between_neighbours_def by blast
  next
    case False
    with "1.prems" have "linear_at (x1 # xs) (y1 # ys) q = Some v" by simp
    with False "1.prems" have "between_neighbours (x1 # xs) (y1 # ys) q v"
      by (intro "1.IH") simp_all
    then show ?thesis by (rule between_neighbours_Cons)
  qed
qed simp_all

lemma between_neighbours_table:
  assumes "between_neighbours table_x table_y q v"
  shows "0 \<le> v \<and> v \<le> 1"
proof -
  from assms obtain j where j: "j < length table_x - 1"
      "min (table_y ! j) (table_y ! Suc j) \<le> v" "v \<le> max (table_y ! j) (table_y ! Suc j)"
    by (auto simp: between_neighbours_def)
  then have "table_y ! j \<in> set table_y" "table_y ! Suc j \<in> set table_y"
    by (simp_all add: table_lengths)
  with table_y_range have "0 < table_y ! j" "0 < table_y ! Suc j"
      "table_y ! j < 1" "table_y ! Suc j < 1"
    by fastforce+
  with j show ?thesis by (simp add: min_def max_def split: if_splits)
qed

text \<open>
  C10. The table's \<open>y\<close>-values all lie in \<open>[2.86651572e-07, 0.999999521]\<close>, and if
  the interpolation routine returns, at each query point inside the table, a value
  between the neighbouring table entries, then every value \<open>cdf_table\<close> returns lies in
  \<open>[0, 1]\<close>.
\<close>

theorem cdf_table_unit_interval:
  assumes len: "length (interpolate table_x table_y (values_of z)) = length (values_of z)"
    and nb: "\<forall>i < length (values_of z).
               table_x ! 0 \<le> values_of z ! i \<and> values_of z ! i \<le> last table_x \<longrightarrow>
               between_neighbours table_x table_y (values_of z ! i)
                 (interpolate table_x table_y (values_of z) ! i)"
  shows "(\<forall>y \<in> set table_y. 0.000000286651572 \<le> y \<and> y \<le> 0.999999521) \<and>
         (\<exists>r. cdf_table interpolate z = Inr r \<and> (\<forall>v \<in> set (values_of r). 0 \<le> v \<and> v \<le> 1))"
proof -
  let ?zs = "values_of z"
  let ?rs = "interpolate table_x table_y ?zs"
  let ?c = "\<lambda>r z::real. if 4.9 < z then 1 else if z < - 5 then 0 else r"
  have elem: "0 \<le> ?c (?rs ! i) (?zs ! i) \<and> ?c (?rs ! i) (?zs ! i) \<le> 1" if "i < length ?zs" for i
  proof (cases "4.9 < ?zs ! i \<or> ?zs ! i < - 5")
    case True
    then show ?thesis by auto
  next
    case False
    with nb that have "between_neighbours table_x table_y (?zs ! i) (?rs ! i)"
      by (simp add: table_x_ends)
    from between_neighbours_table [OF this] False show ?thesis by simp
  qed
  have all: "\<forall>v \<in> set (map2 ?c ?rs ?zs). 0 \<le> v \<and> v \<le> 1"
  proof
    fix v assume "v \<in> set (map2 ?c ?rs ?zs)"
    then obtain i where "i < length ?zs" "v = ?c (?rs ! i) (?zs ! i)"
      using len by (auto simp: in_set_conv_nth)
    with elem [of i] show "0 \<le> v \<and> v \<le> 1" by simp
  qed
  have "\<exists>r. cdf_table interpolate z = Inr r \<and> (\<forall>v \<in> set (values_of r). 0 \<le> v \<and> v \<le> 1)"
  proof (cases z)
    case (Scalar a)
    with len obtain r where r: "interpolate table_x table_y [a] = [r]"
      by (auto simp: values_of_def length_1_conv)
    then have "cdf_table interpolate (Scalar a) = Inr (Scalar (?c r a))"
      by (rule cdf_table_Scalar)
    moreover from Scalar r have zs: "?zs = [a]" "?rs = [r]"
      by (simp_all add: values_of_def)
    then have "0 \<le> ?c r a \<and> ?c r a \<le> 1"
      using elem [of 0] by (auto split: if_splits)
    ultimately show ?thesis using Scalar by (simp add: values_of_def)
  next
    case (Seq vs)
    with len have "length (interpolate table_x table_y vs) = length vs"
      by (simp add: values_of_def)
    then have "cdf_table interpolate (Seq vs) = Inr (Seq (map2 ?c (interpolate table_x table_y vs) vs))"
      by (rule cdf_table_Seq)
    with all Seq show ?thesis by (simp add: values_of_def)
  qed
  with table_y_range show ?thesis by simp
qed

lemma interpolate1d_between:
  assumes "successively (<) xs" "length xs = length ys" "2 \<le> length xs"
    and "i < length qs" "hd xs \<le> qs ! i" "qs ! i \<le> last xs"
  shows "between_neighbours xs ys (qs ! i) (interpolate1d outside xs ys qs ! i)"
proof -
  from linear_at_inside [OF assms(2,3,5,6)] obtain v
    where v: "linear_at xs ys (qs ! i) = Some v" ..
  with assms(4) have "interpolate1d outside xs ys qs ! i = v"
    by (simp add: interpolate1d_def)
  with linear_at_between [OF assms(1) v] show ?thesis by simp
qed

theorem cdf_table_unit_interval_witness:
  "cdf_table (interpolate1d (\<lambda>q. q)) (Seq [- 6, 0.05, 5]) = Inr (Seq [0, 0.5199139185, 1]) \<and>
   (\<exists>r. cdf_table (interpolate1d (\<lambda>q. q)) (Seq [- 6, 0.05, 5]) = Inr r \<and>
        (\<forall>v \<in> set (values_of r). 0 \<le> v \<and> v \<le> 1))"
proof -
  let ?z = "Seq [- 6, 0.05, 5]"
  have len: "length (interpolate1d (\<lambda>q. q) table_x table_y (values_of ?z)) = length (values_of ?z)"
    by (simp add: interpolate1d_def)
  have nb: "\<forall>i < length (values_of ?z).
               table_x ! 0 \<le> values_of ?z ! i \<and> values_of ?z ! i \<le> last table_x \<longrightarrow>
               between_neighbours table_x table_y (values_of ?z ! i)
                 (interpolate1d (\<lambda>q. q) table_x table_y (values_of ?z) ! i)"
    using table_x_sorted
    by (auto intro!: interpolate1d_between simp: table_lengths table_x_ends)
  have "linear_at table_x table_y 0.05 = Some 0.5199139185"
    by (simp add: table_x_def table_y_def)
  then have "cdf_table (interpolate1d (\<lambda>q. q)) ?z = Inr (Seq [0, 0.5199139185, 1])"
    by (simp add: cdf_table_Seq interpolate1d_def)
  with cdf_table_unit_interval [of "interpolate1d (\<lambda>q. q)" ?z, OF len nb]
  show ?thesis by simp
qed

subsection \<open>Monotonicity\<close>

text \<open>
  The derivative of the polynomial of \<open>erf\<close> is positive on \<open>[0, 1]\<close>: written in the
  Bernstein basis of degree 8 all its coefficients are positive. Hence, for \<open>z \<ge> 0\<close>,
  \<open>t*exp(-z\<^sup>2 - 1.26551223 + poly(t))\<close> with \<open>t = 1/(1+0.5*z)\<close> does not increase in \<open>z\<close>.
\<close>

lemma erf_poly_deriv_bernstein:
  fixes t :: real
  shows "(1.00002368 + 0.74818392 * t + 0.29035254 * t^2 - 0.74515224 * t^3 + 1.39434035 * t^4
          - 6.81122388 * t^5 + 10.41961109 * t^6 - 6.57721784 * t^7 + 1.53785493 * t^8) * 10 ^ 8 =
         100002368 * (1 - t)^8 + 874837336 * t * (1 - t)^7 + 3352830302 * t^2 * (1 - t)^6 +
         7271015140 * t^3 * (1 - t)^5 + 9821196205 * t^4 * (1 - t)^4 +
         7930942920 * t^5 * (1 - t)^3 + 3896827261 * t^6 * (1 - t)^2 +
         1065952502 * t^7 * (1 - t) + 125677255 * t^8"
  by algebra

lemma erf_poly_deriv_nonneg:
  fixes t :: real
  assumes "0 \<le> t" "t \<le> 1"
  shows "0 \<le> 1.00002368 + 0.74818392 * t + 0.29035254 * t^2 - 0.74515224 * t^3 + 1.39434035 * t^4
          - 6.81122388 * t^5 + 10.41961109 * t^6 - 6.57721784 * t^7 + 1.53785493 * t^8"
proof -
  have s: "0 \<le> 1 - t" using assms by simp
  have "0 \<le> 100002368 * (1 - t)^8 + 874837336 * t * (1 - t)^7 + 3352830302 * t^2 * (1 - t)^6 +
         7271015140 * t^3 * (1 - t)^5 + 9821196205 * t^4 * (1 - t)^4 +
         7930942920 * t^5 * (1 - t)^3 + 3896827261 * t^6 * (1 - t)^2 +
         1065952502 * t^7 * (1 - t) + 125677255 * t^8"
    using assms(1) s by (intro add_nonneg_nonneg mult_nonneg_nonneg zero_le_power) simp_all
  then have "0 \<le> (1.00002368 + 0.74818392 * t + 0.29035254 * t^2 - 0.74515224 * t^3 + 1.39434035 * t^4
          - 6.81122388 * t^5 + 10.41961109 * t^6 - 6.57721784 * t^7 + 1.53785493 * t^8) * 10 ^ 8"
    by (simp only: erf_poly_deriv_bernstein)
  then show ?thesis by (simp only: zero_le_mult_iff) simp
qed

lemma erf_poly_has_deriv:
  "((\<lambda>t. horner erf_coefficients t) has_real_derivative
     (1.00002368 + 0.74818392 * t + 0.29035254 * t^2 - 0.74515224 * t^3 + 1.39434035 * t^4
          - 6.81122388 * t^5 + 10.41961109 * t^6 - 6.57721784 * t^7 + 1.53785493 * t^8)) (at t)"
  unfolding horner_erf_coefficients
  by (auto intro!: derivative_eq_intros) algebra


lemma erf_tail_deriv:
  assumes "0 \<le> z"
  shows "\<exists>y. ((\<lambda>z. 1 / (1 + 0.5 * z) *
                  exp (- z\<^sup>2 - 1.26551223 + horner erf_coefficients (1 / (1 + 0.5 * z))))
              has_real_derivative y) (at z) \<and> y \<le> 0"
proof -
  define T where "T = (\<lambda>z::real. 1 / (1 + 0.5 * z))"
  define E where "E = (\<lambda>z. - z\<^sup>2 - 1.26551223 + horner erf_coefficients (T z))"
  define D where "D = 1.00002368 + 0.74818392 * T z + 0.29035254 * (T z)^2
      - 0.74515224 * (T z)^3 + 1.39434035 * (T z)^4 - 6.81122388 * (T z)^5
      + 10.41961109 * (T z)^6 - 6.57721784 * (T z)^7 + 1.53785493 * (T z)^8"
  define T' where "T' = - ((T z)\<^sup>2 * 0.5)"
  have pos: "0 < 1 + 0.5 * z" using assms by simp
  have T_pos: "0 < T z" using pos by (simp add: T_def)
  have T_le: "T z \<le> 1" using assms by (simp add: T_def)
  have D_nonneg: "0 \<le> D" unfolding D_def using T_pos T_le
    by (intro erf_poly_deriv_nonneg) simp_all
  have T'_le: "T' \<le> 0" by (simp add: T'_def)
  have dT: "(T has_real_derivative T') (at z)"
    unfolding T_def T'_def using pos
    by (auto intro!: derivative_eq_intros simp: power2_eq_square field_simps)
  have dP: "((\<lambda>z. horner erf_coefficients (T z)) has_real_derivative D * T') (at z)"
    unfolding D_def by (rule DERIV_chain2 [OF erf_poly_has_deriv dT])
  have dE: "(E has_real_derivative (- (2 * z) + D * T')) (at z)"
    unfolding E_def by (auto intro!: derivative_eq_intros dP)
  have dexp: "((\<lambda>z. exp (E z)) has_real_derivative exp (E z) * (- (2 * z) + D * T')) (at z)"
    by (rule DERIV_chain2 [OF DERIV_exp dE])
  have dh: "((\<lambda>z. T z * exp (E z)) has_real_derivative
              T' * exp (E z) + exp (E z) * (- (2 * z) + D * T') * T z) (at z)"
    by (rule DERIV_mult [OF dT dexp])
  have "D * T' \<le> 0" using D_nonneg T'_le by (rule mult_nonneg_nonpos)
  with assms have "- (2 * z) + D * T' \<le> 0" by simp
  then have "exp (E z) * (- (2 * z) + D * T') \<le> 0"
    by (rule mult_nonneg_nonpos [OF less_imp_le [OF exp_gt_zero]])
  then have "exp (E z) * (- (2 * z) + D * T') * T z \<le> 0"
    by (rule mult_nonpos_nonneg [OF _ less_imp_le [OF T_pos]])
  moreover have "T' * exp (E z) \<le> 0"
    by (rule mult_nonpos_nonneg [OF T'_le less_imp_le [OF exp_gt_zero]])
  ultimately have "T' * exp (E z) + exp (E z) * (- (2 * z) + D * T') * T z \<le> 0" by simp
  with dh show ?thesis unfolding T_def E_def by blast
qed

lemma erf_reference_nonneg_eq:
  "0 \<le> z \<Longrightarrow> erf_reference z =
     1 - 1 / (1 + 0.5 * z) * exp (- z\<^sup>2 - 1.26551223 + horner erf_coefficients (1 / (1 + 0.5 * z)))"
  by (simp add: erf_reference_def Let_def)

lemma erf_reference_mono_nonneg:
  assumes "0 \<le> z1" "z1 \<le> z2"
  shows "erf_reference z1 \<le> erf_reference z2"
proof -
  let ?h = "\<lambda>z::real. 1 / (1 + 0.5 * z) *
      exp (- z\<^sup>2 - 1.26551223 + horner erf_coefficients (1 / (1 + 0.5 * z)))"
  have "?h z2 \<le> ?h z1"
  proof (rule DERIV_nonpos_imp_nonincreasing [OF assms(2)])
    fix x assume "z1 \<le> x" "x \<le> z2"
    with assms(1) have "0 \<le> x" by simp
    then show "\<exists>y. (?h has_real_derivative y) (at x) \<and> y \<le> 0" by (rule erf_tail_deriv)
  qed
  moreover from assms have "0 \<le> z2" by simp
  then have "erf_reference z2 = 1 - ?h z2" by (rule erf_reference_nonneg_eq)
  moreover from assms(1) have "erf_reference z1 = 1 - ?h z1" by (rule erf_reference_nonneg_eq)
  ultimately show ?thesis by simp
qed

lemma erf_reference_mono_neg:
  assumes "z1 \<le> z2" "z2 < 0"
  shows "erf_reference z1 \<le> erf_reference z2"
proof -
  from assms have "erf_reference (- z2) \<le> erf_reference (- z1)"
    by (intro erf_reference_mono_nonneg) simp_all
  moreover from assms have "erf_reference (- z1) = - erf_reference z1"
      "erf_reference (- z2) = - erf_reference z2"
    by (simp_all add: erf_reference_odd)
  ultimately show ?thesis by simp
qed


lemma erf_poly_mono:
  assumes "0 \<le> s" "s \<le> t" "t \<le> 1"
  shows "horner erf_coefficients s \<le> horner erf_coefficients t"
proof (rule DERIV_nonneg_imp_nondecreasing [OF assms(2)])
  fix x :: real assume "s \<le> x" "x \<le> t"
  with assms have "0 \<le> x" "x \<le> 1" by simp_all
  then have "0 \<le> 1.00002368 + 0.74818392 * x + 0.29035254 * x^2 - 0.74515224 * x^3
      + 1.39434035 * x^4 - 6.81122388 * x^5 + 10.41961109 * x^6 - 6.57721784 * x^7
      + 1.53785493 * x^8"
    by (rule erf_poly_deriv_nonneg)
  with erf_poly_has_deriv [of x]
  show "\<exists>y. (horner erf_coefficients has_real_derivative y) (at x) \<and> 0 \<le> y" by blast
qed

lemma erf_poly_near_one:
  "1.26551223 + (1 / 2 ^ 30)\<^sup>2 \<le> horner erf_coefficients (1 - 1 / 2 ^ 31)"
  by (simp add: horner_erf_coefficients power2_eq_square)

lemma erf_reference_below_zero:
  "erf_reference 0 < erf_reference (- (1 / 2 ^ 30) / sqrt 2)"
proof -
  define a :: real where "a = (1 / 2 ^ 30) / sqrt 2"
  define T where "T = 1 / (1 + 0.5 * a)"
  define E where "E = - a\<^sup>2 - 1.26551223 + horner erf_coefficients T"
  have "1 < sqrt (2::real)" by simp
  then have a_pos: "0 < a" and a_lt: "a < 1 / 2 ^ 30"
    by (simp_all add: a_def field_simps)
  have T_le: "T \<le> 1" using a_pos by (simp add: T_def)
  have "(1 - 0.5 * a) * (1 + 0.5 * a) \<le> 1" by (simp add: algebra_simps)
  then have "1 - 0.5 * a \<le> T" using a_pos by (simp add: T_def pos_le_divide_eq)
  with a_lt have T_ge: "1 - 1 / 2 ^ 31 \<le> T" by simp
  have "horner erf_coefficients (1 - 1 / 2 ^ 31) \<le> horner erf_coefficients T"
    using T_ge T_le by (intro erf_poly_mono) simp_all
  moreover have "a\<^sup>2 \<le> (1 / 2 ^ 30)\<^sup>2"
    using a_pos a_lt by (intro power_mono) simp_all
  ultimately have "0 \<le> E" unfolding E_def using erf_poly_near_one by linarith
  then have "1 \<le> exp E" by simp
  moreover have "0 \<le> T" using T_ge by simp
  ultimately have "T * 1 \<le> T * exp E" by (rule mult_left_mono)
  with T_ge have low: "- (1 / 2 ^ 31) \<le> T * exp E - 1" by linarith
  have "erf_reference (- a) = - erf_reference a"
    using a_pos by (intro erf_reference_odd) simp
  also have "\<dots> = T * exp E - 1"
    using a_pos by (simp add: erf_reference_nonneg_eq T_def E_def)
  finally have "erf_reference (- a) = T * exp E - 1" .
  moreover have "erf_reference 0 < - (3 / 10 ^ 8)"
    using exp_small_lower by (simp add: erf_reference_0)
  moreover have "- (3 / 10 ^ 8) < - (1 / 2 ^ 31 :: real)" by simp
  ultimately have "erf_reference 0 < erf_reference (- a)" using low by linarith
  then show ?thesis by (simp add: a_def)
qed

text \<open>
  C9, as the specification states it, fails for \<open>cdf\<close> across zero: with the default
  parameters \<open>cdf(-1/2^30)\<close> is greater than \<open>cdf(0)\<close>. Just below zero the approximation of
  \<open>erf\<close> is about \<open>+3e-8\<close>, at zero it is about \<open>-3e-8\<close>.
\<close>

theorem cdf_not_monotone_counterexample:
  "(case (cdf (Scalar (- (1 / 2 ^ 30))) 0 1 ''normal'', cdf (Scalar 0) 0 1 ''normal'') of
      (Inr (Scalar a), Inr (Scalar b)) \<Rightarrow> b < a
    | _ \<Rightarrow> False)"
  using erf_reference_below_zero by (simp add: cdf_normal arg_map_def cdf_reference_def)


lemma linear_at_table:
  assumes "- 5 \<le> z" "z \<le> 4.9"
  shows "\<exists>v. linear_at table_x table_y z = Some v \<and> 0 < v \<and> v < 1"
proof -
  have "\<exists>v. linear_at table_x table_y z = Some v"
    using assms by (intro linear_at_inside) (simp_all add: table_lengths table_x_ends)
  then obtain v where v: "linear_at table_x table_y z = Some v" ..
  from linear_at_bounds [OF table_x_sorted table_y_sorted v]
  have "0 < v \<and> v < 1" by (simp add: table_y_ends)
  with v show ?thesis by simp
qed

lemma cdf_table_value_mono:
  fixes outside :: "real \<Rightarrow> real"
  assumes "z1 \<le> z2"
  shows "(if 4.9 < z1 then 1 else if z1 < - 5 then 0
          else (case linear_at table_x table_y z1 of Some v \<Rightarrow> v | None \<Rightarrow> outside z1))
       \<le> (if 4.9 < z2 then 1 else if z2 < - 5 then 0
          else (case linear_at table_x table_y z2 of Some v \<Rightarrow> v | None \<Rightarrow> outside z2))"
proof (cases "- 5 \<le> z1 \<and> z1 \<le> 4.9")
  case in1: True
  then obtain v1 where v1: "linear_at table_x table_y z1 = Some v1" "0 < v1" "v1 < 1"
    using linear_at_table [of z1] by auto
  show ?thesis
  proof (cases "z2 \<le> 4.9")
    case True
    with assms in1 obtain v2 where v2: "linear_at table_x table_y z2 = Some v2"
      using linear_at_table [of z2] by auto
    from linear_at_mono [OF table_x_sorted table_y_sorted assms v1(1) v2]
    have "v1 \<le> v2" .
    with in1 True assms v1 v2 show ?thesis by simp
  next
    case False
    with in1 v1 show ?thesis by simp
  qed
next
  case out1: False
  show ?thesis
  proof (cases "z1 < - 5")
    case low: True
    show ?thesis
    proof (cases "- 5 \<le> z2 \<and> z2 \<le> 4.9")
      case True
      then obtain v2 where "linear_at table_x table_y z2 = Some v2" "0 < v2"
        using linear_at_table [of z2] by auto
      with low True show ?thesis by simp
    next
      case False
      with low show ?thesis by auto
    qed
  next
    case False
    with out1 assms have "4.9 < z1" "4.9 < z2" by simp_all
    then show ?thesis by simp
  qed
qed

text \<open>
  Across zero. Below zero the approximation of \<open>erf\<close> is at most \<open>-erf(0)\<close>, about
  \<open>3e-8\<close>, from zero on it is at least \<open>erf(0)\<close>; at \<open>8e-8/sqrt(2)\<close> it has passed
  \<open>-erf(0)\<close>.
\<close>

lemma sqrt2_upper: "sqrt 2 < (1.42::real)"
  by (rule real_less_lsqrt) (simp_all add: power2_eq_square)

lemma exp_le_inverse:
  fixes x :: real
  assumes "x < 1"
  shows "exp x \<le> 1 / (1 - x)"
proof -
  have "1 - x \<le> exp (- x)" using exp_ge_add_one_self [of "- x"] by simp
  moreover have "0 < 1 - x" using assms by simp
  ultimately have "1 / exp (- x) \<le> 1 / (1 - x)" by (intro divide_left_mono) simp_all
  then show ?thesis by (simp add: exp_minus inverse_eq_divide)
qed

lemma erf_reference_window_edge:
  "- erf_reference 0 \<le> erf_reference (8 / 10 ^ 8 / 1.42)"
proof -
  define a :: real where "a = 8 / 10 ^ 8 / 1.42"
  define T :: real where "T = 1 / (1 + 0.5 * a)"
  define E :: real where "E = - a\<^sup>2 - 1.26551223 + horner erf_coefficients T"
  have T_pos: "0 < T" by (simp add: T_def a_def)
  have E_lt: "E < 1"
    by (simp add: E_def T_def a_def horner_erf_coefficients power2_eq_square)
  have frac: "T / (1 - E) \<le> 1 - (3 / 10 ^ 8 + 9 / 10 ^ 16)"
    by (simp add: E_def T_def a_def horner_erf_coefficients power2_eq_square)
  have "T * exp E \<le> T * (1 / (1 - E))"
    using exp_le_inverse [OF E_lt] T_pos by (intro mult_left_mono) simp_all
  also have "\<dots> = T / (1 - E)" by simp
  also note frac
  finally have "T * exp E \<le> 1 - (3 / 10 ^ 8 + 9 / 10 ^ 16)" .
  moreover have "erf_reference a = 1 - T * exp E"
    by (simp add: erf_reference_nonneg_eq a_def T_def E_def)
  moreover have "exp (3 / 10 ^ 8 :: real) \<le> 1 + 3 / 10 ^ 8 + (3 / 10 ^ 8)\<^sup>2"
    by (rule exp_bound) simp_all
  then have "- erf_reference 0 \<le> 3 / 10 ^ 8 + 9 / 10 ^ 16"
    by (simp add: erf_reference_0 power2_eq_square)
  ultimately show ?thesis unfolding a_def by linarith
qed


lemma erf_reference_neg_le:
  assumes "a < 0"
  shows "erf_reference a \<le> - erf_reference 0"
proof -
  from assms have "erf_reference 0 \<le> erf_reference (- a)"
    by (intro erf_reference_mono_nonneg) simp_all
  moreover from assms have "erf_reference (- a) = - erf_reference a"
    by (intro erf_reference_odd) simp
  ultimately show ?thesis by simp
qed

lemma erf_reference_outside_window:
  assumes "8 / 10 ^ 8 \<le> z"
  shows "- erf_reference 0 \<le> erf_reference (z / sqrt 2)"
    and "erf_reference (- z / sqrt 2) \<le> erf_reference 0"
proof -
  have "8 / 10 ^ 8 / 1.42 \<le> 8 / 10 ^ 8 / sqrt 2"
    using sqrt2_upper by (intro divide_left_mono) simp_all
  also have "\<dots> \<le> z / sqrt 2" using assms by (intro divide_right_mono) simp_all
  finally have "erf_reference (8 / 10 ^ 8 / 1.42) \<le> erf_reference (z / sqrt 2)"
    by (intro erf_reference_mono_nonneg) simp_all
  with erf_reference_window_edge show 1: "- erf_reference 0 \<le> erf_reference (z / sqrt 2)"
    by simp
  from assms have "z / sqrt 2 \<noteq> 0" by simp
  then have "erf_reference (- (z / sqrt 2)) = - erf_reference (z / sqrt 2)"
    by (rule erf_reference_odd)
  with 1 show "erf_reference (- z / sqrt 2) \<le> erf_reference 0" by simp
qed

lemma erf_reference_args_mono:
  assumes "z1 < z2"
  shows "erf_reference (z1 / sqrt 2) \<le> erf_reference (z2 / sqrt 2) + 8 / 10 ^ 8"
    and "\<not> (- (8 / 10 ^ 8) < z1 \<and> z1 < 0 \<and> 0 \<le> z2 \<and> z2 < 8 / 10 ^ 8) \<Longrightarrow>
         erf_reference (z1 / sqrt 2) \<le> erf_reference (z2 / sqrt 2)"
proof -
  from assms have args: "z1 / sqrt 2 \<le> z2 / sqrt 2" by (simp add: divide_right_mono)
  have e0: "- (4 / 10 ^ 8) < erf_reference 0" "erf_reference 0 < 0"
    using exp_small_bounds by (simp_all add: erf_reference_0)
  have same: "erf_reference (z1 / sqrt 2) \<le> erf_reference (z2 / sqrt 2)"
    if "z2 < 0 \<or> 0 \<le> z1"
    using that
  proof
    assume "z2 < 0"
    then have "z2 / sqrt 2 < 0" by (simp add: divide_neg_pos)
    with args show ?thesis by (rule erf_reference_mono_neg)
  next
    assume "0 \<le> z1"
    then have "0 \<le> z1 / sqrt 2" by simp
    then show ?thesis using args by (rule erf_reference_mono_nonneg)
  qed
  have across: "erf_reference (z1 / sqrt 2) \<le> - erf_reference 0"
      "erf_reference 0 \<le> erf_reference (z2 / sqrt 2)"
    if "z1 < 0" "0 \<le> z2"
  proof -
    from that(1) have "z1 / sqrt 2 < 0" by (simp add: divide_neg_pos)
    then show "erf_reference (z1 / sqrt 2) \<le> - erf_reference 0"
      by (rule erf_reference_neg_le)
    from that(2) show "erf_reference 0 \<le> erf_reference (z2 / sqrt 2)"
      by (intro erf_reference_mono_nonneg) simp_all
  qed
  show "erf_reference (z1 / sqrt 2) \<le> erf_reference (z2 / sqrt 2) + 8 / 10 ^ 8"
  proof (cases "z2 < 0 \<or> 0 \<le> z1")
    case True
    from same [OF this] show ?thesis by simp
  next
    case False
    then have "z1 < 0" "0 \<le> z2" by simp_all
    from across [OF this] e0 show ?thesis by linarith
  qed
  show "erf_reference (z1 / sqrt 2) \<le> erf_reference (z2 / sqrt 2)"
    if out: "\<not> (- (8 / 10 ^ 8) < z1 \<and> z1 < 0 \<and> 0 \<le> z2 \<and> z2 < 8 / 10 ^ 8)"
  proof (cases "z2 < 0 \<or> 0 \<le> z1")
    case True
    then show ?thesis by (rule same)
  next
    case False
    then have sgn: "z1 < 0" "0 \<le> z2" by simp_all
    with out consider "8 / 10 ^ 8 \<le> z2" | "8 / 10 ^ 8 \<le> - z1" by fastforce
    then show ?thesis
    proof cases
      case 1
      from erf_reference_outside_window(1) [OF 1] across(1) [OF sgn] show ?thesis by simp
    next
      case 2
      from erf_reference_outside_window(2) [OF 2] across(2) [OF sgn] show ?thesis by simp
    qed
  qed
qed


text \<open>
  C9, amended. For all reals \<open>z1 < z2\<close>, \<open>cdf_table(z1) \<le> cdf_table(z2)\<close> (with the
  piecewise-linear interpolation routine, whatever it returns outside the table). With
  the default parameters \<open>cdf(z1) \<le> cdf(z2) + 4e-8\<close> always, and
  \<open>cdf(z1) \<le> cdf(z2) + 1e-12\<close>, a tolerance for the rounding of doubles, unless the pair
  lies across zero inside the window \<open>-8e-8 < z1 < 0 \<le> z2 < 8e-8\<close>.
\<close>

theorem monotone_up_to_tolerance:
  assumes "z1 < z2"
  shows "(\<exists>a b. cdf_table (interpolate1d outside) (Scalar z1) = Inr (Scalar a) \<and>
                cdf_table (interpolate1d outside) (Scalar z2) = Inr (Scalar b) \<and> a \<le> b) \<and>
         (\<exists>a b. cdf (Scalar z1) 0 1 ''normal'' = Inr (Scalar a) \<and>
                cdf (Scalar z2) 0 1 ''normal'' = Inr (Scalar b) \<and>
                a \<le> b + 4 / 10 ^ 8 \<and>
                (\<not> (- (8 / 10 ^ 8) < z1 \<and> z1 < 0 \<and> 0 \<le> z2 \<and> z2 < 8 / 10 ^ 8) \<longrightarrow>
                   a \<le> b + 1 / 10 ^ 12))"
proof -
  from assms have le: "z1 \<le> z2" by simp
  have table: "\<exists>a b. cdf_table (interpolate1d outside) (Scalar z1) = Inr (Scalar a) \<and>
                cdf_table (interpolate1d outside) (Scalar z2) = Inr (Scalar b) \<and> a \<le> b"
    using cdf_table_value_mono [OF le, of outside]
    by (simp only: cdf_table_interpolate1d_Scalar) blast
  have eq: "cdf_reference 0 1 z = (1 + erf_reference (z / sqrt 2)) / 2" for z
    by (simp add: cdf_reference_def)
  have all: "cdf_reference 0 1 z1 \<le> cdf_reference 0 1 z2 + 4 / 10 ^ 8"
    unfolding eq using erf_reference_args_mono(1) [OF assms] by (simp add: field_simps)
  have out: "cdf_reference 0 1 z1 \<le> cdf_reference 0 1 z2 + 1 / 10 ^ 12"
    if "\<not> (- (8 / 10 ^ 8) < z1 \<and> z1 < 0 \<and> 0 \<le> z2 \<and> z2 < 8 / 10 ^ 8)"
  proof -
    from erf_reference_args_mono(2) [OF assms that]
    show ?thesis unfolding eq by (simp add: field_simps)
  qed
  from all out have "\<exists>a b. cdf (Scalar z1) 0 1 ''normal'' = Inr (Scalar a) \<and>
      cdf (Scalar z2) 0 1 ''normal'' = Inr (Scalar b) \<and> a \<le> b + 4 / 10 ^ 8 \<and>
      (\<not> (- (8 / 10 ^ 8) < z1 \<and> z1 < 0 \<and> 0 \<le> z2 \<and> z2 < 8 / 10 ^ 8) \<longrightarrow>
         a \<le> b + 1 / 10 ^ 12)"
    by (simp only: cdf_normal arg_map_def arg.case) blast
  with table show ?thesis by (rule conjI)
qed

theorem monotone_up_to_tolerance_witness:
  "(- 1 :: real) < 1 \<and>
   cdf_table (interpolate1d (\<lambda>q. q)) (Scalar (- 1)) = Inr (Scalar 0.158655254) \<and>
   cdf_table (interpolate1d (\<lambda>q. q)) (Scalar 1) = Inr (Scalar 0.841344746) \<and>
   (\<exists>a b. cdf (Scalar (- 1)) 0 1 ''normal'' = Inr (Scalar a) \<and>
          cdf (Scalar 1) 0 1 ''normal'' = Inr (Scalar b) \<and>
          a \<le> b + 4 / 10 ^ 8 \<and> a \<le> b + 1 / 10 ^ 12)"
proof -
  have "linear_at table_x table_y (- 1) = Some 0.158655254"
    "linear_at table_x table_y 1 = Some 0.841344746"
    by (simp_all add: table_x_def table_y_def)
  then have "cdf_table (interpolate1d (\<lambda>q. q)) (Scalar (- 1)) = Inr (Scalar 0.158655254)"
    "cdf_table (interpolate1d (\<lambda>q. q)) (Scalar 1) = Inr (Scalar 0.841344746)"
    by (simp_all add: cdf_table_interpolate1d_Scalar)
  with monotone_up_to_tolerance [of "- 1" 1 "\<lambda>q. q"] show ?thesis by simp
qed

end
